theory Spec2Isabelle
  imports Main "HOL-Library.AList" "HOL-Library.Multiset"
begin

section \<open>The lunch notification server (app.js)\<close>

text \<open>
  The server keeps two module-level variables, \<open>users\<close> (the registry) and
  \<open>cater2MeMenu\<close>, and reacts to HTTP requests and to the settlement of the promises
  it started. The model passes the state explicitly: a route handler is a function from
  the state to its reply and the new state, and the settlement of a promise is an event
  applied to the state. Calls to the collaborators (\<open>notify.js\<close>, \<open>slack.js\<close>,
  \<open>cater2me.js\<close>, \<open>fs\<close>) are recorded, in order, in \<open>effects\<close>; log lines in
  \<open>logs\<close>.

  The registry is a plain JavaScript object. Its own properties are an association list:
  an assignment to a new key appends, an assignment to an existing key keeps its place
  (\<open>AList.update\<close>), \<open>delete\<close> removes the key (\<open>AList.delete\<close>). A lookup
  \<open>users[k]\<close> that finds no own property goes on to the prototype, and the assignment
  \<open>users['__proto__'] = {}\<close> replaces the prototype instead of creating a property;
  \<open>proto\<close> holds the object that replaced it, if any. \<open>JSON.stringify\<close> and
  \<open>Object.keys\<close> see the own properties only. The list order stands for the order of
  enumeration, which for keys that are array indices is not the order of insertion;
  the results below that speak of all the calls made are stated on multisets for that
  reason. A handle, an error and the menu are strings.

  A handler runs to completion before any promise it started settles, so a settlement is
  always applied to the state the handler left or a later one.
\<close>

type_synonym identity = string
type_synonym channel = string
type_synonym handle = string
type_synonym address = string
type_synonym bindings = "(channel \<times> handle) list"
type_synonym registry = "(identity \<times> bindings) list"

datatype level = Info | Warn | Error

text \<open>The settlement of a promise: fulfilled with a value or rejected with a reason.\<close>

datatype ('a, 'b) settled = is_Fulfilled: Fulfilled 'a | is_Rejected: Rejected 'b

datatype effect =
    ReadFileSync string
  | WriteFile string registry
  | LoadTodaysMenu
  | AddBinding identity string address
  | DeleteBinding handle
  | NotifyUserByIdentity identity string
  | SlackNotifyUser identity string "string option list"
  | Listen nat
  | Rethrow string

record server =
  users :: registry
  proto :: "bindings option"
  cater2MeMenu :: "string option"
  listening :: bool
  effects :: "effect list"
  logs :: "(level \<times> string) list"

definition users_file :: string where
  "users_file = ''./users.json''"

text \<open>\<open>process.env.PORT || 5000\<close>, at its default.\<close>

definition port :: nat where
  "port = 5000"

definition log :: "level \<Rightarrow> string \<Rightarrow> server \<Rightarrow> server" where
  "log l msg s = s\<lparr>logs := logs s @ [(l, msg)]\<rparr>"

definition call :: "effect \<Rightarrow> server \<Rightarrow> server" where
  "call e s = s\<lparr>effects := effects s @ [e]\<rparr>"

text \<open>The decimal numeral of a number, as a template literal or a property name has it.\<close>

fun decimal :: "nat \<Rightarrow> string" where
  "decimal n =
     (if n < 10 then [char_of (48 + n)]
      else decimal (n div 10) @ [char_of (48 + n mod 10)])"

text \<open>\<open>Array.prototype.join\<close>.\<close>

fun join :: "string \<Rightarrow> string list \<Rightarrow> string" where
  "join sep [] = []"
| "join sep [x] = x"
| "join sep (x # y # ys) = x @ sep @ join sep (y # ys)"

subsection \<open>persistUsers (lines 282-293)\<close>

text \<open>
  \<open>new Promise(executor)\<close> calls the executor with the function that fulfils the
  promise first and the function that rejects it second, whatever the executor names
  its parameters.
\<close>

definition new_Promise ::
  "(('a \<Rightarrow> ('a, 'b) settled) \<Rightarrow> ('b \<Rightarrow> ('a, 'b) settled) \<Rightarrow> ('a, 'b) settled) \<Rightarrow> ('a, 'b) settled" where
  "new_Promise executor = executor Fulfilled Rejected"

text \<open>
  The call itself: \<open>JSON.stringify(users, null, 2)\<close> is evaluated at once, so the
  snapshot written is the registry at the time of the call.
\<close>

definition persistUsers :: "server \<Rightarrow> server" where
  "persistUsers s = call (WriteFile users_file (users s)) s"

text \<open>
  The promise \<open>persistUsers\<close> returns, as a function of what \<open>fs.writeFile\<close> hands
  to its callback: \<open>Some err\<close> for a failed write, \<open>None\<close> (\<open>null\<close>) for a write
  that succeeded. The executor is \<open>(reject, resolve) => ...\<close>; the value \<open>None\<close> of
  the promise stands for \<open>undefined\<close>.
\<close>

definition persistUsers_promise ::
  "string option \<Rightarrow> (string option, string option) settled" where
  "persistUsers_promise err =
     new_Promise (\<lambda>reject resolve.
       (case err of Some e \<Rightarrow> reject (Some e) | None \<Rightarrow> resolve None))"

definition writeFile_done :: "string option \<Rightarrow> server \<Rightarrow> server" where
  "writeFile_done err s =
     (case err of Some e \<Rightarrow> log Warn ''Unable to persist users...'' s | None \<Rightarrow> s)"

subsection \<open>Start-up (lines 39-74 and 269-279)\<close>

text \<open>
  What \<open>JSON.parse\<close> returns for the text of the snapshot: \<open>null\<close>, a registry (an
  object whose values are objects of strings), or any other value (a number, a string,
  a boolean, an array, an object that is not a registry).
\<close>

datatype json = JNull | JObject registry | JOther

text \<open>
  What \<open>JSON.parse(fs.readFileSync(file))\<close> does at line 42: \<open>readFileSync\<close> throws
  (no file, or a file that cannot be read), \<open>JSON.parse\<close> throws (the text is not
  JSON), or a value is returned. \<open>read_users\<close> is the value of \<open>users\<close> after the
  \<open>try\<close> statement of lines 41-45.
\<close>

datatype snapshot_read = ReadThrew string | ParseThrew string | Parsed json

definition read_users :: "snapshot_read \<Rightarrow> json" where
  "read_users r =
     (case r of
        Parsed v \<Rightarrow> v
      | ReadThrew err \<Rightarrow> JObject []
      | ParseThrew err \<Rightarrow> JObject [])"

text \<open>
  \<open>onTick\<close> of the cron job starts a menu load; the two callbacks of
  \<open>loadTodaysMenu().then\<close> run when it settles.
\<close>

definition onTick :: "server \<Rightarrow> server" where
  "onTick s = call LoadTodaysMenu s"

definition refresh_settles :: "(string, string) settled \<Rightarrow> server \<Rightarrow> server" where
  "refresh_settles r s =
     (case r of
        Fulfilled res \<Rightarrow> log Info (''Got Cater2Me menu '' @ res) (s\<lparr>cater2MeMenu := Some res\<rparr>)
      | Rejected err \<Rightarrow> log Warn (''Failed to load Cater2Me menu: '' @ err) s)"

text \<open>
  The module body from line 46 on, for a registry \<open>us\<close> read at lines 40-45: the number
  of its keys is logged, the cron job is created with \<open>runOnInit\<close> (its first tick runs
  at once), the routes are installed, and \<open>Promise.all([cater2MeMenuLoaded])\<close> is left
  waiting for the first load.
\<close>

definition boot :: "registry \<Rightarrow> server" where
  "boot us =
     (let s0 = \<lparr>users = us, proto = None, cater2MeMenu = None, listening = False,
                 effects = [ReadFileSync users_file], logs = []\<rparr>;
          s1 = log Info (''Num subscribed users '' @ decimal (length (users s0))) s0;
          s2 = log Info ''Starting cater2me cron job...'' s1;
          s3 = onTick s2;
          s4 = log Info ''Waiting for initialization to complete...'' s3
      in s4)"

text \<open>
  Start-up as a whole. \<open>Object.keys(users)\<close> at line 46 stands outside the \<open>try\<close>:
  it throws a \<open>TypeError\<close> when \<open>users\<close> is \<open>null\<close>, and the module body ends
  there. For another value that is not a registry start-up goes on, with \<open>users\<close> bound
  to that value; the handlers below are those of a registry.
\<close>

datatype started = Crashed string | Started server | NotARegistry

definition startup :: "snapshot_read \<Rightarrow> started" where
  "startup r =
     (case read_users r of
        JNull \<Rightarrow> Crashed ''TypeError''
      | JObject us \<Rightarrow> Started (boot us)
      | JOther \<Rightarrow> NotARegistry)"

text \<open>
  The two callbacks of \<open>Promise.all([cater2MeMenuLoaded]).then\<close> (lines 271-279):
  \<open>app.listen\<close> when the first load is fulfilled; an error line and a rethrow, which
  nothing catches, when it is rejected.
\<close>

definition initialization_settles :: "(string, string) settled \<Rightarrow> server \<Rightarrow> server" where
  "initialization_settles r s =
     (case r of
        Fulfilled res \<Rightarrow>
          log Info (''Listening on port '' @ decimal port @ ''...'')
            (call (Listen port) (s\<lparr>listening := True\<rparr>))
      | Rejected err \<Rightarrow> call (Rethrow err) (log Error ''Failed to initialize web server'' s))"

definition first_refresh_settles :: "(string, string) settled \<Rightarrow> server \<Rightarrow> server" where
  "first_refresh_settles r s = initialization_settles r (refresh_settles r s)"

subsection \<open>GET /menu (lines 253-263)\<close>

datatype payload = Messages "string list" | Text string | Json registry

type_synonym reply = "nat \<times> payload"

text \<open>
  \<open>!cater2MeMenu\<close> and \<open>users[u].slack\<close> as conditions: \<open>null\<close>,
  \<open>undefined\<close> (both \<open>None\<close>) and the empty string are falsy, every other
  string is truthy.
\<close>

definition truthy :: "string option \<Rightarrow> bool" where
  "truthy v = (case v of None \<Rightarrow> False | Some x \<Rightarrow> x \<noteq> [])"

definition unavailable :: reply where
  "unavailable = (503, Text ''Today's menu is currently unavailable, try again later.'')"

definition get_menu :: "server \<Rightarrow> reply \<times> server" where
  "get_menu s =
     (let s1 = log Info ''GET /menu'' s in
      if \<not> truthy (cater2MeMenu s1) then (unavailable, s1)
      else (case cater2MeMenu s1 of
              Some m \<Rightarrow> ((200, Text m), s1)
            | None \<Rightarrow> (unavailable, s1)))"

subsection \<open>Property access on the registry\<close>

text \<open>
  What \<open>users[k]\<close> evaluates to: the object of an own property; for \<open>__proto__\<close>
  with no own property of that name, the prototype of \<open>users\<close>, which is the object
  that replaced it or else \<open>Object.prototype\<close>; a string inherited from the object
  that replaced the prototype; a function of \<open>Object.prototype\<close>; or \<open>undefined\<close>.
  \<open>Builtin\<close> stands for \<open>Object.prototype\<close> and for each of its functions.
\<close>

datatype target =
    is_Entry: Entry bindings
  | is_Prototype: Prototype bindings
  | Builtin
  | Inherited handle
  | Undefined

definition object_prototype_functions :: "string list" where
  "object_prototype_functions =
     [''constructor'', ''hasOwnProperty'', ''isPrototypeOf'', ''propertyIsEnumerable'',
      ''toLocaleString'', ''toString'', ''valueOf'', ''__defineGetter__'',
      ''__defineSetter__'', ''__lookupGetter__'', ''__lookupSetter__'']"

definition get_user :: "identity \<Rightarrow> server \<Rightarrow> target" where
  "get_user k s =
     (case map_of (users s) k of
        Some b \<Rightarrow> Entry b
      | None \<Rightarrow>
          if k = ''__proto__'' then
            (case proto s of Some p \<Rightarrow> Prototype p | None \<Rightarrow> Builtin)
          else
            (case (case proto s of Some p \<Rightarrow> map_of p k | None \<Rightarrow> None) of
               Some h \<Rightarrow> Inherited h
             | None \<Rightarrow> if k \<in> set object_prototype_functions then Builtin else Undefined))"

text \<open>\<open>users[k]\<close> as a condition: an object or a function is truthy, a string when it
  is not empty.\<close>

definition truthy_target :: "target \<Rightarrow> bool" where
  "truthy_target t =
     (case t of
        Entry b \<Rightarrow> True
      | Prototype p \<Rightarrow> True
      | Builtin \<Rightarrow> True
      | Inherited h \<Rightarrow> h \<noteq> []
      | Undefined \<Rightarrow> False)"

text \<open>
  The enumerable properties \<open>for (var bindType in users[k])\<close> runs through, each with
  the value \<open>users[k][bindType]\<close>: those of the object; none for a built-in; for a
  string its indices, each with the character at it.
\<close>

definition properties :: "target \<Rightarrow> (string \<times> string) list" where
  "properties t =
     (case t of
        Entry b \<Rightarrow> b
      | Prototype p \<Rightarrow> p
      | Builtin \<Rightarrow> []
      | Inherited h \<Rightarrow> zip (map decimal [0..<length h]) (map (\<lambda>ch. [ch]) h)
      | Undefined \<Rightarrow> [])"

text \<open>
  \<open>o[c] = h\<close> on a plain object \<open>o\<close> and a string \<open>h\<close>: the property \<open>c\<close> is
  created or updated, but for \<open>__proto__\<close> without an own property of that name, where
  the setter of \<open>Object.prototype\<close> ignores a string.
\<close>

definition put :: "channel \<Rightarrow> handle \<Rightarrow> bindings \<Rightarrow> bindings" where
  "put c h o' = (if c = ''__proto__'' \<and> map_of o' c = None then o' else AList.update c h o')"

text \<open>
  \<open>users[i] = {}\<close> (line 143): an own property \<open>i\<close> is updated; without one,
  \<open>__proto__\<close> reaches the setter of \<open>Object.prototype\<close>, which makes the new object
  the prototype of \<open>users\<close>, and any other key becomes an own property.
\<close>

definition new_user :: "identity \<Rightarrow> server \<Rightarrow> server" where
  "new_user i s =
     (if i = ''__proto__'' \<and> map_of (users s) i = None then s\<lparr>proto := Some []\<rparr>
      else s\<lparr>users := AList.update i [] (users s)\<rparr>)"

text \<open>
  How a step of the program ends: with a result; with a \<open>TypeError\<close>, in the state in
  which it was thrown; or by adding a property to a built-in object, after which what
  every lookup finds has changed: this model does not follow the program beyond that.
\<close>

datatype 'a run = Done 'a | Threw server | Beyond

text \<open>
  \<open>users[i][c] = h\<close> (lines 148 and 154). The file is in strict mode: the assignment
  throws when \<open>users[i]\<close> is a string or \<open>undefined\<close>.
\<close>

definition set_binding :: "identity \<Rightarrow> channel \<Rightarrow> handle \<Rightarrow> server \<Rightarrow> server run" where
  "set_binding i c h s =
     (case get_user i s of
        Entry b \<Rightarrow> Done (s\<lparr>users := AList.update i (put c h b) (users s)\<rparr>)
      | Prototype p \<Rightarrow> Done (s\<lparr>proto := Some (put c h p)\<rparr>)
      | Builtin \<Rightarrow> Beyond
      | Inherited x \<Rightarrow> Threw s
      | Undefined \<Rightarrow> Threw s)"

subsection \<open>POST /users (lines 92-178)\<close>

text \<open>
  The handler's inputs: \<open>VALID_CHANNELS\<close> of \<open>util.js\<close>, what
  \<open>new RegistrationCommand(req.body.Body)\<close> gave (\<open>None\<close> when the constructor
  threw), and \<open>req.body.From\<close> and \<open>req.body.Body\<close>.
\<close>

record command =
  identity :: identity
  isUnsubscribe :: bool
  channels :: "channel list"

definition slack_marker :: handle where
  "slack_marker = ''https://www.slack.com/notifyme''"

definition supported :: "channel list \<Rightarrow> string" where
  "supported valid =
     ''Supported channels are '' @ join '', '' valid @ ''.\<newline>Ex: jdoe: sms, slack, ios''"

definition help_text :: "channel list \<Rightarrow> reply" where
  "help_text valid =
     (200, Messages
       [''Register by texting:\<newline>[ldap username]: [comma separated list of channels to be notified on]'',
        supported valid,
        ''If you would like to unsubscribe text:\<newline>[ldap username]: stop''])"

definition no_valid_channels :: "channel list \<Rightarrow> reply" where
  "no_valid_channels valid =
     (200, Messages [''You must specify at least one valid channel'', supported valid])"

definition unsubscribed :: "identity \<Rightarrow> reply" where
  "unsubscribed i = (200, Messages [''You have been unsubscribed, '' @ i])"

text \<open>
  The unsubscribe branch (lines 109-120). The test \<open>bindType != null\<close> holds of every
  key. \<open>delete users[i]\<close> removes an own property and does nothing without one.
\<close>

definition delete_bindings :: "(string \<times> string) list \<Rightarrow> server \<Rightarrow> server" where
  "delete_bindings b s =
     fold (\<lambda>(bindType, h) t. if bindType \<noteq> ''slack'' then call (DeleteBinding h) t else t) b s"

definition unsubscribe :: "identity \<Rightarrow> server \<Rightarrow> server" where
  "unsubscribe i s =
     (if truthy_target (get_user i s) then
        (let s1 = delete_bindings (properties (get_user i s)) s;
             s2 = s1\<lparr>users := AList.delete i (users s1)\<rparr>
         in persistUsers s2)
      else s)"

text \<open>
  An entry of the array \<open>promises\<close>: the value of the assignment for \<open>slack\<close>, a
  pending promise for any other channel.
\<close>

datatype promise = is_Value: Value string | is_Pending: Pending channel

text \<open>\<open>command.channels.forEach\<close> (lines 146-163).\<close>

fun forEach_channel ::
  "identity \<Rightarrow> address \<Rightarrow> channel list \<Rightarrow> server \<times> promise list \<Rightarrow> (server \<times> promise list) run" where
  "forEach_channel i addr [] acc = Done acc"
| "forEach_channel i addr (c # cs) (s, promises) =
     (if c = ''slack'' then
        (case set_binding i c slack_marker s of
           Done s1 \<Rightarrow> forEach_channel i addr cs (s1, promises @ [Value slack_marker])
         | Threw s1 \<Rightarrow> Threw s1
         | Beyond \<Rightarrow> Beyond)
      else
        forEach_channel i addr cs (call (AddBinding i ''sms'' addr) s, promises @ [Pending c]))"

text \<open>
  What \<open>Promise.all(promises)\<close> keeps of a request whose promises are still pending:
  how many of them have been fulfilled, and whether one has been rejected.
\<close>

record request =
  rq_identity :: identity
  rq_promises :: "promise list"
  rq_fulfilled :: nat
  rq_rejected :: bool

definition all_fulfilled :: "request \<Rightarrow> bool" where
  "all_fulfilled r =
     (\<not> rq_rejected r \<and> rq_fulfilled r = length (filter is_Pending (rq_promises r)))"

definition thanks :: "identity \<Rightarrow> channel list \<Rightarrow> string" where
  "thanks i cs =
     ''Thanks for signing up '' @ i @ ''. You're signed up to receive notifications on ''
       @ join '', '' cs @ ''.''"

definition already :: "identity \<Rightarrow> channel list \<Rightarrow> string" where
  "already i cs =
     ''Looks like you are already registered '' @ i
       @ ''.\<newline>We've updated your notification preferences to '' @ join '', '' cs @ ''.''"

definition signed_up :: "string \<Rightarrow> reply" where
  "signed_up msg = (200, Messages [msg @ ''\<newline>Well let you know when lunch arrives.''])"

text \<open>
  The subscribe branch (lines 127-177), up to the end of the handler. When no promise is
  pending, \<open>Promise.all\<close> is fulfilled at once and its callback persists. An exception
  leaves the handler before \<open>res.send\<close>, and the framework answers 500. \<open>None\<close> is a
  run that goes beyond the model.
\<close>

definition subscribe ::
  "channel list \<Rightarrow> command \<Rightarrow> address \<Rightarrow> server \<Rightarrow> (reply \<times> server \<times> request option) option" where
  "subscribe valid cmd addr s =
     (if channels cmd = [] then Some (no_valid_channels valid, s, None)
      else
        (let msg = (if truthy_target (get_user (identity cmd) s)
                    then already (identity cmd) (channels cmd)
                    else thanks (identity cmd) (channels cmd));
             s1 = new_user (identity cmd) s
         in case forEach_channel (identity cmd) addr (channels cmd) (s1, []) of
              Threw s2 \<Rightarrow> Some ((500, Text ''TypeError''), s2, None)
            | Beyond \<Rightarrow> None
            | Done (s2, promises) \<Rightarrow>
                (let rq = \<lparr>rq_identity = identity cmd, rq_promises = promises,
                           rq_fulfilled = 0, rq_rejected = False\<rparr>
                 in if all_fulfilled rq then Some (signed_up msg, persistUsers s2, Some rq)
                    else Some (signed_up msg, s2, Some rq))))"

definition post_users ::
  "channel list \<Rightarrow> command option \<Rightarrow> address \<Rightarrow> string \<Rightarrow> server
     \<Rightarrow> (reply \<times> server \<times> request option) option" where
  "post_users valid parsed addr body s =
     (let s1 = log Info (''POST /users From:'' @ addr @ '' Body: '' @ body) s in
      case parsed of
        None \<Rightarrow> Some (help_text valid, s1, None)
      | Some cmd \<Rightarrow>
          if isUnsubscribe cmd
          then Some (unsubscribed (identity cmd), unsubscribe (identity cmd) s1, None)
          else subscribe valid cmd addr s1)"

text \<open>
  One promise of \<open>notify.addBinding\<close> settles (lines 153-160), for the channel \<open>c\<close>
  it was started for. When it is fulfilled the handle is stored and the promise of the
  array is fulfilled; the last one to be fulfilled fulfils \<open>Promise.all\<close>, whose
  callback persists. When it is rejected the failure is logged and the promise of the
  array is rejected; the first rejection rejects \<open>Promise.all\<close>, whose \<open>catch\<close>
  logs. An assignment that throws leaves the promise of the array pending.

  The callbacks of \<open>Promise.all\<close> are run here right after the settlement that
  triggers them. When several promises settle in one turn of the event loop they run
  after the callbacks of that turn, which changes the order of the log lines and nothing
  else.
\<close>

fun settle ::
  "channel \<times> (handle, string) settled \<Rightarrow> server \<times> request \<Rightarrow> (server \<times> request) option" where
  "settle (c, Fulfilled res) (s, r) =
     (case set_binding (rq_identity r) c res s of
        Threw s1 \<Rightarrow> Some (s, r)
      | Beyond \<Rightarrow> None
      | Done s1 \<Rightarrow>
          (let r1 = r\<lparr>rq_fulfilled := rq_fulfilled r + 1\<rparr>
           in if all_fulfilled r1 then Some (persistUsers s1, r1) else Some (s1, r1)))"
| "settle (c, Rejected err) (s, r) =
     (let s1 = log Warn (''Failed to add Binding for user '' @ rq_identity r @ '': '' @ err) s
      in if rq_rejected r then Some (s1, r)
         else Some (log Warn ''Failed to register user's channels.'' s1, r\<lparr>rq_rejected := True\<rparr>))"

text \<open>The settlements of a list, in the order in which they arrive.\<close>

fun settle_each ::
  "(channel \<times> (handle, string) settled) list \<Rightarrow> server \<times> request \<Rightarrow> (server \<times> request) option" where
  "settle_each [] sr = Some sr"
| "settle_each (ev # evs) sr =
     (case settle ev sr of
        None \<Rightarrow> None
      | Some sr1 \<Rightarrow> settle_each evs sr1)"

text \<open>
  A whole subscription: the handler, then the settlements \<open>sched\<close> of the promises it
  started.
\<close>

definition subscription ::
  "channel list \<Rightarrow> command \<Rightarrow> address \<Rightarrow> string
     \<Rightarrow> (channel \<times> (handle, string) settled) list \<Rightarrow> server \<Rightarrow> server option" where
  "subscription valid cmd addr body sched s =
     (case post_users valid (Some cmd) addr body s of
        None \<Rightarrow> None
      | Some (rep, s1, None) \<Rightarrow> Some s1
      | Some (rep, s1, Some r) \<Rightarrow> map_option fst (settle_each sched (s1, r)))"

subsection \<open>GET /users (lines 181-184)\<close>

text \<open>\<open>res.send(users)\<close> serialises the own properties.\<close>

definition get_users :: "server \<Rightarrow> reply \<times> server" where
  "get_users s = ((200, Json (users s)), log Info ''GET /users'' s)"

subsection \<open>POST /lunch (lines 240-250)\<close>





subsection \<open>Observations\<close>

text \<open>The snapshots handed to \<open>fs.writeFile\<close>.\<close>

fun snapshot_of :: "effect \<Rightarrow> registry option" where
  "snapshot_of (WriteFile f us) = Some us"
| "snapshot_of e = None"

definition writes :: "server \<Rightarrow> registry list" where
  "writes s = List.map_filter snapshot_of (effects s)"

text \<open>The values of the promises of a list that were fulfilled, in order.\<close>

fun loaded :: "('a, 'b) settled list \<Rightarrow> 'a list" where
  "loaded [] = []"
| "loaded (Fulfilled m # rs) = m # loaded rs"
| "loaded (Rejected e # rs) = loaded rs"





section \<open>Properties\<close>

lemma users_log [simp]: "users (log l m s) = users s"
  by (simp add: log_def)

lemma users_call [simp]: "users (call e s) = users s"
  by (simp add: call_def)

lemma proto_log [simp]: "proto (log l m s) = proto s"
  by (simp add: log_def)

lemma proto_call [simp]: "proto (call e s) = proto s"
  by (simp add: call_def)

lemma effects_log [simp]: "effects (log l m s) = effects s"
  by (simp add: log_def)

lemma effects_call [simp]: "effects (call e s) = effects s @ [e]"
  by (simp add: call_def)

lemma logs_log [simp]: "logs (log l m s) = logs s @ [(l, m)]"
  by (simp add: log_def)

lemma logs_call [simp]: "logs (call e s) = logs s"
  by (simp add: call_def)

lemma menu_log [simp]: "cater2MeMenu (log l m s) = cater2MeMenu s"
  by (simp add: log_def)

lemma menu_call [simp]: "cater2MeMenu (call e s) = cater2MeMenu s"
  by (simp add: call_def)

lemma listening_log [simp]: "listening (log l m s) = listening s"
  by (simp add: log_def)

lemma listening_call [simp]: "listening (call e s) = listening s"
  by (simp add: call_def)

lemma users_persistUsers [simp]: "users (persistUsers s) = users s"
  by (simp add: persistUsers_def)

lemma proto_persistUsers [simp]: "proto (persistUsers s) = proto s"
  by (simp add: persistUsers_def)

lemma logs_persistUsers [simp]: "logs (persistUsers s) = logs s"
  by (simp add: persistUsers_def)

lemma get_user_cong:
  assumes "users s' = users s" and "proto s' = proto s"
  shows "get_user i s' = get_user i s"
  unfolding get_user_def assms by (rule refl)

lemma get_user_log [simp]: "get_user i (log l m s) = get_user i s"
  by (rule get_user_cong) simp_all

lemma get_user_call [simp]: "get_user i (call e s) = get_user i s"
  by (rule get_user_cong) simp_all

lemma get_user_persistUsers [simp]: "get_user i (persistUsers s) = get_user i s"
  by (rule get_user_cong) simp_all

lemma writes_cong:
  assumes "effects s' = effects s"
  shows "writes s' = writes s"
  unfolding writes_def assms by (rule refl)

lemma writes_log [simp]: "writes (log l m s) = writes s"
  by (rule writes_cong) simp

lemma writes_call_other [simp]: "snapshot_of e = None \<Longrightarrow> writes (call e s) = writes s"
  by (simp add: writes_def List.map_filter_def)

lemma writes_persistUsers [simp]: "writes (persistUsers s) = writes s @ [users s]"
  by (simp add: writes_def persistUsers_def List.map_filter_def)

subsection \<open>Lookups\<close>

lemma get_user_Entry: "map_of (users s) k = Some b \<Longrightarrow> get_user k s = Entry b"
  by (simp add: get_user_def)

lemma get_user_proto:
  "map_of (users s) ''__proto__'' = None \<Longrightarrow>
   get_user ''__proto__'' s = (case proto s of Some p \<Rightarrow> Prototype p | None \<Rightarrow> Builtin)"
  by (simp add: get_user_def)

lemma get_user_other:
  "map_of (users s) k = None \<Longrightarrow> k \<noteq> ''__proto__'' \<Longrightarrow>
   get_user k s =
     (case (case proto s of Some p \<Rightarrow> map_of p k | None \<Rightarrow> None) of
        Some h \<Rightarrow> Inherited h
      | None \<Rightarrow> if k \<in> set object_prototype_functions then Builtin else Undefined)"
  by (simp add: get_user_def)

lemma is_Entry_get_user: "is_Entry (get_user k s) = (map_of (users s) k \<noteq> None)"
proof (cases "map_of (users s) k")
  case None
  show ?thesis
  proof (cases "k = ''__proto__''")
    case True
    then show ?thesis
      using get_user_proto[of s] None by (simp split: option.split)
  next
    case False
    then show ?thesis
      using get_user_other[OF None False] None by (simp split: option.split)
  qed
next
  case (Some b)
  then show ?thesis by (simp add: get_user_Entry)
qed







subsection \<open>The handler of a subscription\<close>



subsection \<open>One settlement\<close>






subsection \<open>The settlements of a subscription\<close>








subsection \<open>A whole subscription\<close>



subsection \<open>Start-up and the menu\<close>

lemma startup_cases:
  "startup (ReadThrew e) = Started (boot [])"
  "startup (ParseThrew e) = Started (boot [])"
  "startup (Parsed (JObject us)) = Started (boot us)"
  "startup (Parsed JNull) = Crashed ''TypeError''"
  "startup (Parsed JOther) = NotARegistry"
  by (simp_all add: startup_def read_users_def)

lemma boot_fields:
  "users (boot us) = us" "proto (boot us) = None" "cater2MeMenu (boot us) = None"
  "listening (boot us) = False" "effects (boot us) = [ReadFileSync users_file, LoadTodaysMenu]"
  by (simp_all add: boot_def onTick_def Let_def)

lemma menu_refresh_Fulfilled: "cater2MeMenu (refresh_settles (Fulfilled m) s) = Some m"
  by (simp add: refresh_settles_def)

lemma menu_refresh_Rejected: "cater2MeMenu (refresh_settles (Rejected e) s) = cater2MeMenu s"
  by (simp add: refresh_settles_def)

lemma menu_after_refreshes:
  "cater2MeMenu (fold refresh_settles rs s) =
     (if loaded rs = [] then cater2MeMenu s else Some (last (loaded rs)))"
  by (induction rs arbitrary: s rule: loaded.induct)
     (simp_all add: menu_refresh_Fulfilled menu_refresh_Rejected)

lemma get_menu_reply:
  "fst (get_menu s) =
     (case cater2MeMenu s of None \<Rightarrow> unavailable | Some m \<Rightarrow> if m = [] then unavailable else (200, Text m))"
  by (simp add: get_menu_def truthy_def Let_def split: option.splits)

subsection \<open>Dispatch\<close>







section \<open>The claims\<close>

text \<open>
  C1 fails for the identity \<open>__proto__\<close>. Line 143 then replaces the prototype of
  \<open>users\<close> and creates no property; the handle of the fulfilled promise is stored in
  the object that became the prototype, and \<open>GET /users\<close>, which serialises the own
  properties, has no entry for the subscriber, as the snapshot written has none. The same
  request for \<open>jdoe\<close> is listed with the channel that succeeded.
\<close>

theorem proto_identity_not_listed:
  "map_option (\<lambda>S. (fst (get_users S), proto S, writes S))
     (subscription [''sms'', ''slack'', ''ios'']
        \<lparr>identity = ''__proto__'', isUnsubscribe = False, channels = [''sms'']\<rparr>
        ''+15550100'' ''__proto__: sms''
        [(''sms'', Fulfilled ''BS1'')]
        (boot []))
     = Some ((200, Json []), Some [(''sms'', ''BS1'')], [[]])
   \<and> map_option (\<lambda>S. (fst (get_users S), proto S, writes S))
     (subscription [''sms'', ''slack'', ''ios'']
        \<lparr>identity = ''jdoe'', isUnsubscribe = False, channels = [''sms'']\<rparr>
        ''+15550100'' ''jdoe: sms''
        [(''sms'', Fulfilled ''BS1'')]
        (boot []))
     = Some ((200, Json [(''jdoe'', [(''sms'', ''BS1'')])]), None, [[(''jdoe'', [(''sms'', ''BS1'')])]])"
  by (simp add: subscription_def post_users_def subscribe_def boot_def onTick_def Let_def
      new_user_def set_binding_def get_user_def put_def all_fulfilled_def persistUsers_def
      writes_def List.map_filter_def get_users_def)




text \<open>
  C3 (as the code has it). Whatever registry start-up read, the server does not listen
  before the first menu load has settled. It starts listening when that load is
  fulfilled. When that load is rejected it logs an error, rethrows and does not listen,
  and no later load makes it listen.
\<close>

theorem serving_starts_when_first_refresh_succeeds:
  "startup (ReadThrew e) = Started (boot [])
   \<and> startup (ParseThrew e) = Started (boot [])
   \<and> startup (Parsed (JObject us)) = Started (boot us)
   \<and> \<not> listening (boot us)
   \<and> listening (first_refresh_settles (Fulfilled m) (boot us))
   \<and> Listen port \<in> set (effects (first_refresh_settles (Fulfilled m) (boot us)))
   \<and> \<not> listening (first_refresh_settles (Rejected err) (boot us))
   \<and> (Error, ''Failed to initialize web server'') \<in> set (logs (first_refresh_settles (Rejected err) (boot us)))
   \<and> Rethrow err \<in> set (effects (first_refresh_settles (Rejected err) (boot us)))
   \<and> listening (refresh_settles x s) = listening s"
  by (simp add: startup_cases boot_fields first_refresh_settles_def initialization_settles_def
      refresh_settles_def split: settled.splits)

text \<open>
  C3 as stated fails when the first load is rejected: the load has settled and the server
  is not listening.
\<close>

theorem first_refresh_failure_never_serves:
  "startup (ReadThrew ''ENOENT'') = Started (boot [])
   \<and> \<not> listening (first_refresh_settles (Rejected ''ETIMEDOUT'') (boot []))"
  by (simp add: startup_cases boot_fields first_refresh_settles_def initialization_settles_def
      refresh_settles_def)



text \<open>
  C5 fails for an identity that is not in the registry and names a function of
  \<open>Object.prototype\<close>: \<open>users['constructor']\<close> is truthy at line 109, the loop
  finds nothing to delete, \<open>delete\<close> removes nothing, and \<open>persistUsers\<close> is
  called. For \<open>bob\<close>, not in the registry either, nothing is written.
\<close>

theorem unsubscribe_constructor_persists:
  "map_of (users (boot [])) ''constructor'' = None
   \<and> map_option (\<lambda>(rep, s', rq). (rep, users s', effects s'))
       (post_users [''sms'', ''slack'', ''ios'']
          (Some \<lparr>identity = ''constructor'', isUnsubscribe = True, channels = []\<rparr>)
          ''+15550100'' ''constructor: stop'' (boot []))
     = Some (unsubscribed ''constructor'', [],
             [ReadFileSync users_file, LoadTodaysMenu, WriteFile users_file []])
   \<and> map_of (users (boot [])) ''bob'' = None
   \<and> map_option (\<lambda>(rep, s', rq). (rep, users s', effects s'))
       (post_users [''sms'', ''slack'', ''ios'']
          (Some \<lparr>identity = ''bob'', isUnsubscribe = True, channels = []\<rparr>)
          ''+15550100'' ''bob: stop'' (boot []))
     = Some (unsubscribed ''bob'', [], [ReadFileSync users_file, LoadTodaysMenu])"
  by (simp add: post_users_def unsubscribe_def boot_def onTick_def Let_def get_user_def
      truthy_target_def properties_def delete_bindings_def object_prototype_functions_def
      persistUsers_def)

text \<open>
  C6 (as the code has it). After any sequence of menu loads, \<open>GET /menu\<close> answers with
  the menu of the most recent fulfilled load when that menu is not empty, and with the
  unavailable reply when it is empty; when no load has been fulfilled it answers as it
  did before them, which at start-up is the unavailable reply. A rejected load leaves
  the stored menu as it was.
\<close>

theorem menu_read_after_refreshes:
  "fst (get_menu (fold refresh_settles rs s)) =
     (if loaded rs = [] then fst (get_menu s)
      else if last (loaded rs) = [] then unavailable
      else (200, Text (last (loaded rs))))
   \<and> fst (get_menu (boot us)) = unavailable
   \<and> cater2MeMenu (refresh_settles (Rejected err) s) = cater2MeMenu s
   \<and> cater2MeMenu (initialization_settles x s) = cater2MeMenu s"
  by (simp add: get_menu_reply menu_after_refreshes boot_fields
      refresh_settles_def initialization_settles_def split: list.splits settled.splits)

text \<open>
  C6 as stated fails when a load is fulfilled with the empty string: the load succeeded,
  its content is stored, the server listens, and the reply is the unavailable one, since
  \<open>!cater2MeMenu\<close> holds of the empty string.
\<close>

theorem empty_menu_reads_unavailable:
  "startup (ReadThrew ''ENOENT'') = Started (boot [])
   \<and> cater2MeMenu (first_refresh_settles (Fulfilled '''') (boot [])) = Some ''''
   \<and> listening (first_refresh_settles (Fulfilled '''') (boot []))
   \<and> fst (get_menu (first_refresh_settles (Fulfilled '''') (boot []))) = unavailable"
  by (simp add: startup_cases get_menu_reply boot_fields first_refresh_settles_def
      initialization_settles_def refresh_settles_def)

text \<open>
  C7. The subscribe branch passes the kind \<open>sms\<close> to \<open>notify.addBinding\<close> whatever
  the channel is: a subscription to \<open>ios\<close> creates a binding of kind \<open>sms\<close> for
  the caller's address and stores its handle under \<open>ios\<close>.
\<close>

theorem ios_binding_created_with_sms_kind:
  "startup (ReadThrew ''ENOENT'') = Started (boot [])
   \<and> map_option (\<lambda>(rep, s', rq). effects s')
       (post_users [''sms'', ''slack'', ''ios'']
          (Some \<lparr>identity = ''jdoe'', isUnsubscribe = False, channels = [''ios'']\<rparr>)
          ''+15550100'' ''jdoe: ios'' (boot []))
     = Some [ReadFileSync users_file, LoadTodaysMenu, AddBinding ''jdoe'' ''sms'' ''+15550100'']
   \<and> map_option users (subscription [''sms'', ''slack'', ''ios'']
      \<lparr>identity = ''jdoe'', isUnsubscribe = False, channels = [''ios'']\<rparr> ''+15550100'' ''jdoe: ios''
      [(''ios'', Fulfilled ''BS1'')] (boot []))
     = Some [(''jdoe'', [(''ios'', ''BS1'')])]"
  by (simp add: startup_def read_users_def subscription_def post_users_def subscribe_def boot_def
      onTick_def Let_def new_user_def set_binding_def get_user_def put_def all_fulfilled_def
      persistUsers_def)

text \<open>
  C8. A subscribe command with no channel is answered with the message that at least one
  valid channel must be given, which is not the help text of a command that failed to
  parse; the registry is unchanged and no call is made, so nothing is persisted.
\<close>

theorem no_valid_channels_leaves_registry:
  "post_users valid (Some \<lparr>identity = i, isUnsubscribe = False, channels = []\<rparr>) addr body s =
     Some (no_valid_channels valid, log Info (''POST /users From:'' @ addr @ '' Body: '' @ body) s, None)
   \<and> users (log Info (''POST /users From:'' @ addr @ '' Body: '' @ body) s) = users s
   \<and> proto (log Info (''POST /users From:'' @ addr @ '' Body: '' @ body) s) = proto s
   \<and> effects (log Info (''POST /users From:'' @ addr @ '' Body: '' @ body) s) = effects s
   \<and> no_valid_channels valid \<noteq> help_text valid
   \<and> no_valid_channels valid = (200, Messages [''You must specify at least one valid channel'', supported valid])"
  by (simp add: post_users_def subscribe_def Let_def no_valid_channels_def help_text_def)

text \<open>
  C9 fails for a snapshot whose text is \<open>null\<close>: the parse succeeds, \<open>users\<close> is
  \<open>null\<close>, and \<open>Object.keys(users)\<close> at line 46, outside the \<open>try\<close>, throws,
  so start-up ends there. A file that cannot be read or parsed gives the empty registry
  and start-up goes on.
\<close>

theorem null_snapshot_crashes_startup:
  "startup (Parsed JNull) = Crashed ''TypeError''
   \<and> startup (ReadThrew e) = Started (boot [])
   \<and> startup (ParseThrew e) = Started (boot [])"
  by (simp add: startup_def read_users_def)

text \<open>
  C10. The executor of \<open>persistUsers\<close> names its parameters in the swapped order: a
  write that succeeds rejects the returned promise, with no value, and a write that
  fails fulfils it with the error.
\<close>

theorem persistUsers_promise_inverted:
  "persistUsers_promise None = Rejected None
   \<and> persistUsers_promise (Some e) = Fulfilled (Some e)"
  by (simp add: persistUsers_promise_def new_Promise_def)

end
